theory Spec2Isabelle
  imports Complex_Main
begin

section \<open>Common data\<close>

text \<open>
  The C++ type \<open>double\<close> is modelled by \<open>real\<close>: arithmetic is exact, rounding, infinities
  and NaN are outside the model. \<open>libRSF::Vector\<close> is a dynamically sized Eigen column
  vector, modelled as a list of reals.
\<close>

type_synonym Vector = "real list"

text \<open>
  Failures that end a call instead of returning a value: Eigen's size assertion on a
  coefficient-wise operation or a fixed-size assignment, and the two contract violations of
  the factor graph engine.
\<close>

datatype error = SizeMismatch | DuplicateStateError | UnknownStateError

text \<open>What \<open>PRINT_ERROR\<close> writes, in order.\<close>

type_synonym log = "string list"

definition setZero :: "nat \<Rightarrow> Vector" where
  "setZero n = replicate n 0"

text \<open>
  \<open>cwiseInverse\<close> is the coefficient-wise reciprocal. On a zero coefficient IEEE arithmetic
  gives an infinity while \<open>inverse 0 = 0\<close> in HOL: there the definition does not follow the
  code. What is stated below about values computed with it is stated for positive
  coefficients, where every reciprocal, and every sum of reciprocals, is a positive number.
\<close>

definition cwiseInverse :: "Vector \<Rightarrow> Vector" where
  "cwiseInverse v = map inverse v"

text \<open>
  Eigen's \<open>a += b\<close>: both sides must have the same size. With Eigen's assertions compiled
  in, other sizes end the program; without them the addition runs over the size of \<open>a\<close> and,
  where \<open>b\<close> is the shorter one, reads past its end. Either way no sum comes back, which is
  the outcome \<open>SizeMismatch\<close>.
\<close>

definition vec_add :: "Vector \<Rightarrow> Vector \<Rightarrow> error + Vector" where
  "vec_add a b = (if length a = length b then Inr (map2 (+) a b) else Inl SizeMismatch)"

text \<open>Eigen's \<open>a /= n\<close> for a count \<open>n\<close>.\<close>

definition vec_div :: "Vector \<Rightarrow> nat \<Rightarrow> Vector" where
  "vec_div a n = map (\<lambda>x. x / real n) a"

section \<open>Resampling.cpp\<close>

text \<open>
  A measurement carries a timestamp, a mean and a covariance vector; whatever else the class
  holds (its type tag, further elements) lives in the record's extension and is copied with
  the object.
\<close>

record SensorData =
  Timestamp :: real
  Mean :: Vector
  Covariance :: Vector

text \<open>The accumulation loop of \<open>AverageMeasurement\<close>: \<open>Time\<close>, \<open>Mean\<close> and \<open>Info\<close>.\<close>

fun average_loop ::
  "'a SensorData_scheme list \<Rightarrow> real \<times> Vector \<times> Vector \<Rightarrow> error + (real \<times> Vector \<times> Vector)"
where
  "average_loop [] acc = Inr acc"
| "average_loop (Measurement # rest) (Time, MeanAcc, Info) =
     (case vec_add MeanAcc (Mean Measurement) of
        Inl e \<Rightarrow> Inl e
      | Inr MeanAcc' \<Rightarrow>
          (case vec_add Info (cwiseInverse (Covariance Measurement)) of
             Inl e \<Rightarrow> Inl e
           | Inr Info' \<Rightarrow> average_loop rest (Time + Timestamp Measurement, MeanAcc', Info')))"

text \<open>
  \<open>AverageMeasurement\<close>. The first argument is the default-constructed \<open>SensorData\<close> the
  function starts from (its constructor is not part of these sources).
\<close>

definition AverageMeasurement ::
  "'a SensorData_scheme \<Rightarrow> 'a SensorData_scheme list \<Rightarrow> error + ('a SensorData_scheme \<times> log)"
where
  "AverageMeasurement Output Input =
     (if Input = [] then Inr (Output, [''There is no Measurement!''])
      else if length Input = 1 then Inr (Input ! 0, [])
      else
        (case average_loop Input
                (0, setZero (length (Mean (hd Input))), setZero (length (Covariance (hd Input)))) of
           Inl e \<Rightarrow> Inl e
         | Inr (Time, MeanAcc, Info) \<Rightarrow>
             Inr ((last Input)
                    \<lparr>Timestamp := Time / real (length Input),
                     Mean := vec_div MeanAcc (length Input),
                     Covariance := cwiseInverse Info\<rparr>, [])))"

text \<open>
  The loop of \<open>SampleMeasurementsDown\<close> over the rest of the input. The loop state is
  \<open>Output\<close>, \<open>AveragingWindow\<close>, \<open>TimeNext\<close> and what has been logged. \<open>TimeNext\<close> is
  summed exactly here and in double in the code, so a measurement within rounding of a
  window's end may close its window in one and not in the other; what is stated below about
  the windows holds wherever they end.
\<close>

fun sample_loop ::
  "'a SensorData_scheme \<Rightarrow> real \<Rightarrow> real \<Rightarrow> 'a SensorData_scheme list \<Rightarrow>
   'a SensorData_scheme list \<times> 'a SensorData_scheme list \<times> real \<times> log \<Rightarrow>
   error + ('a SensorData_scheme list \<times> 'a SensorData_scheme list \<times> real \<times> log)"
where
  "sample_loop dflt TimeMax SampleTime [] st = Inr st"
| "sample_loop dflt TimeMax SampleTime (Sensor # rest) (Output, AveragingWindow, TimeNext, Log) =
     (let Window = AveragingWindow @ [Sensor] in
      if Timestamp Sensor \<ge> TimeNext \<or> Timestamp Sensor = TimeMax then
        (case AverageMeasurement dflt Window of
           Inl e \<Rightarrow> Inl e
         | Inr (Avg, l) \<Rightarrow>
             sample_loop dflt TimeMax SampleTime rest
               (Output @ [Avg\<lparr>Timestamp := Timestamp (last Window)\<rparr>], [],
                TimeNext + SampleTime, Log @ l))
      else sample_loop dflt TimeMax SampleTime rest (Output, Window, TimeNext, Log))"

definition SampleMeasurementsDown ::
  "'a SensorData_scheme \<Rightarrow> 'a SensorData_scheme list \<Rightarrow> real \<Rightarrow>
   error + ('a SensorData_scheme list \<times> log)"
where
  "SampleMeasurementsDown dflt Input SampleTime =
     (if Input = [] then Inr ([], [''There is no Measurement!''])
      else
        (let Time = Timestamp (hd Input);
             TimeNext = Time + SampleTime;
             TimeMax = Timestamp (last Input)
         in case sample_loop dflt TimeMax SampleTime Input ([], [], TimeNext, []) of
              Inl e \<Rightarrow> Inl e
            | Inr (Output, AveragingWindow, TimeNext', Log) \<Rightarrow> Inr (Output, Log)))"

subsection \<open>The grouping, stated on its own\<close>

text \<open>
  The periods of sample-time length, as lists of measurements: the windows that were closed,
  in order, and the window still open when the input ends.
\<close>

fun averaging_windows ::
  "real \<Rightarrow> real \<Rightarrow> 'a SensorData_scheme list \<Rightarrow> 'a SensorData_scheme list \<Rightarrow> real \<Rightarrow>
   'a SensorData_scheme list list \<times> 'a SensorData_scheme list"
where
  "averaging_windows TimeMax SampleTime [] Window TimeNext = ([], Window)"
| "averaging_windows TimeMax SampleTime (Sensor # rest) Window TimeNext =
     (if Timestamp Sensor \<ge> TimeNext \<or> Timestamp Sensor = TimeMax then
        (let (closed, pending) =
               averaging_windows TimeMax SampleTime rest [] (TimeNext + SampleTime)
         in ((Window @ [Sensor]) # closed, pending))
      else averaging_windows TimeMax SampleTime rest (Window @ [Sensor]) TimeNext)"

text \<open>
  Closing a list of windows one after the other: each is averaged and the result stamped
  with the time of the window's last measurement.
\<close>

fun flush_windows ::
  "'a SensorData_scheme \<Rightarrow> 'a SensorData_scheme list list \<Rightarrow>
   error + ('a SensorData_scheme list \<times> log)"
where
  "flush_windows dflt [] = Inr ([], [])"
| "flush_windows dflt (Window # rest) =
     (case AverageMeasurement dflt Window of
        Inl e \<Rightarrow> Inl e
      | Inr (Avg, l) \<Rightarrow>
          (case flush_windows dflt rest of
             Inl e \<Rightarrow> Inl e
           | Inr (Output, l') \<Rightarrow>
               Inr (Avg\<lparr>Timestamp := Timestamp (last Window)\<rparr> # Output, l @ l')))"

section \<open>Factor graph engine\<close>

text \<open>
  Modelled from the spec: the classes \<open>FactorGraph\<close>, \<open>Data\<close> and \<open>GaussianDiagonal\<close> are
  used by the application, but their code is not part of these sources. The data of this
  section follows section 3 of the specification: a state variable has a name, a timestamp,
  an instance index, a type, a mean and the flag that says whether it is frozen; a factor
  has a kind, the keys of the states it connects, its measurement and its noise model; the
  graph owns the states and the factors, in the order they were added.
\<close>

datatype DataType = Point3 | Odom3 | IterationSummary

text \<open>
  Of the factor kinds only \<open>Prior3\<close> is named by the application; the type filed under
  \<open>Config.GNSS.Type\<close> and \<open>Config.Odom.Type\<close> is one of the others.
\<close>

datatype FactorType = Prior3 | OtherFactorType nat

type_synonym StateID = "string \<times> real \<times> nat"

record StateVariable =
  StateName :: string
  StateTime :: real
  StateNumber :: nat
  StateType :: DataType
  StateMean :: Vector
  IsConstant :: bool

record Data =
  DataKind :: DataType
  DataTime :: real
  DataMean :: Vector

record GaussianDiagonal =
  SqrtInformation :: Vector

record Factor =
  FactorKind :: FactorType
  FactorStates :: "StateID list"
  FactorData :: Data
  FactorNoise :: GaussianDiagonal

record FactorGraph =
  States :: "StateVariable list"
  Factors :: "Factor list"

definition EmptyGraph :: FactorGraph where
  "EmptyGraph = \<lparr>States = [], Factors = []\<rparr>"

definition StateKey :: "StateVariable \<Rightarrow> StateID" where
  "StateKey v = (StateName v, StateTime v, StateNumber v)"

definition checkState :: "FactorGraph \<Rightarrow> StateID \<Rightarrow> bool" where
  "checkState g key = (key \<in> set (map StateKey (States g)))"

text \<open>
  Modelled from the spec: the default mean of a new state, which is zero (section 8: mean
  \<open>[0, 0, 0]\<close> where nothing seeds another value). Only position states (\<open>Point3\<close>, three
  components) are created by the code modelled here; the sizes of the other types are not
  fixed by the specification and no state of such a type is created below.
\<close>

fun DefaultMean :: "DataType \<Rightarrow> Vector" where
  "DefaultMean Point3 = [0, 0, 0]"
| "DefaultMean Odom3 = []"
| "DefaultMean IterationSummary = []"

text \<open>
  Modelled from the spec: \<open>FactorGraph::addState(Name, Type, Timestamp)\<close>, with the instance
  index left at its default 0. Section 4.1: it creates a new free state with the default
  mean and fails with \<open>DuplicateStateError\<close> if the key exists.
\<close>

definition addState :: "string \<Rightarrow> DataType \<Rightarrow> real \<Rightarrow> FactorGraph \<Rightarrow> error + FactorGraph" where
  "addState Name Kind Time g =
     (if checkState g (Name, Time, 0) then Inl DuplicateStateError
      else Inr (g\<lparr>States := States g @
                  [\<lparr>StateName = Name, StateTime = Time, StateNumber = 0, StateType = Kind,
                    StateMean = DefaultMean Kind, IsConstant = False\<rparr>]\<rparr>))"

text \<open>
  Modelled from the spec: \<open>FactorGraph::addFactor\<close>. Section 4.1: every key must exist,
  otherwise it fails with \<open>UnknownStateError\<close> and adds nothing; on success one factor is
  appended.
\<close>

definition addFactor ::
  "FactorType \<Rightarrow> StateID list \<Rightarrow> Data \<Rightarrow> GaussianDiagonal \<Rightarrow> FactorGraph \<Rightarrow> error + FactorGraph"
where
  "addFactor Kind Keys Measurement Noise g =
     (if list_all (checkState g) Keys
      then Inr (g\<lparr>Factors := Factors g @
                  [\<lparr>FactorKind = Kind, FactorStates = Keys, FactorData = Measurement,
                    FactorNoise = Noise\<rparr>]\<rparr>)
      else Inl UnknownStateError)"

text \<open>
  Modelled from the spec: \<open>FactorGraph::setAllConstantOutsideWindow(windowLength,
  currentTime)\<close>. Section 4.1: every state with \<open>timestamp < currentTime - windowLength\<close>
  goes from free to frozen, and nothing is unfrozen.
\<close>

definition setAllConstantOutsideWindow :: "real \<Rightarrow> real \<Rightarrow> FactorGraph \<Rightarrow> FactorGraph" where
  "setAllConstantOutsideWindow TimeWindow CurrentTime g =
     g\<lparr>States := map (\<lambda>v. if StateTime v < CurrentTime - TimeWindow
                             then v\<lparr>IsConstant := True\<rparr> else v) (States g)\<rparr>"

text \<open>
  Modelled from the spec: \<open>getStateData().getElement(Name, Timestamp)\<close>, the state under
  that key (instance index 0), if there is one.
\<close>

definition getElement :: "FactorGraph \<Rightarrow> string \<Rightarrow> real \<Rightarrow> StateVariable option" where
  "getElement g Name Time = find (\<lambda>v. StateKey v = (Name, Time, 0)) (States g)"

text \<open>
  Modelled from the spec: the setters of \<open>GaussianDiagonal<Dim>\<close> and the standard deviation
  a model stands for. Section 3: in the diagonal case the square-root information is the
  inverse standard deviation of each component.
\<close>

definition setStdDevSharedDiagonal :: "nat \<Rightarrow> real \<Rightarrow> GaussianDiagonal" where
  "setStdDevSharedDiagonal Dim StdDev = \<lparr>SqrtInformation = replicate Dim (inverse StdDev)\<rparr>"

definition setSqrtInformationDiagonal :: "Vector \<Rightarrow> GaussianDiagonal" where
  "setSqrtInformationDiagonal SqrtInfo = \<lparr>SqrtInformation = SqrtInfo\<rparr>"

definition StdDevOf :: "GaussianDiagonal \<Rightarrow> Vector" where
  "StdDevOf Noise = map inverse (SqrtInformation Noise)"

section \<open>App_GNSS.cpp\<close>

subsection \<open>Configuration\<close>

record SensorConfig =
  IsActive :: bool
  Type :: FactorType
  Parameter :: Vector

record FactorGraphConfig =
  GNSS :: SensorConfig
  IMU :: SensorConfig
  Odom :: SensorConfig
  Prior :: SensorConfig
  InputFile :: string
  OutputFile :: string

text \<open>
  The names of the state series are macros whose values are not part of these sources;
  nothing below depends on the values.
\<close>

definition POSITION_STATE :: string where "POSITION_STATE = ''Position''"
definition ORIENTATION_STATE :: string where "ORIENTATION_STATE = ''Orientation''"
definition ANGLE_STATE :: string where "ANGLE_STATE = ''Angle''"
definition SOLVE_TIME_STATE :: string where "SOLVE_TIME_STATE = ''SolveTime''"

subsection \<open>Collaborators\<close>

text \<open>
  The application calls helpers whose code is not part of these sources. Each such call is
  recorded with the values it is given; a \<open>Summary\<close> argument is recorded by its timestamp.
  \<open>GraphSolve\<close> stands for the direct call \<open>Graph.solve(Config.SolverConfig)\<close>,
  \<open>Solve t force\<close> for the helper \<open>Solve(Graph, Config, Summary, force)\<close>.
\<close>

datatype call =
    ReadDataFromFile string
  | PRINT_ERROR string
  | InitWithGNSS real real
  | InitIMU real real
  | InitOdom FactorType real
  | AddIMU real real
  | AddOdometry FactorType DataType real real
  | AddGNSS real real
  | GraphSolve
  | Solve real bool
  | Save real bool
  | PrintProgress
  | WriteDataToFile string string bool
  | ConvertAllStatesToGlobal string
  | PrintReport

text \<open>
  What the helpers do is a parameter of the model. \<open>'w\<close> is everything they work on besides
  the graph: the measurements read, the tangent plane converter, the results, the files.
  A helper that is handed the graph may change graph and rest (\<open>effect\<close>); the others change
  the rest only (\<open>io_effect\<close>). \<open>GetFirstTimestamp\<close> and \<open>GetLastTimestamp\<close> return the
  timestamp they found, if any; \<open>IncrementTime\<close> returns its result and the new values of
  the two references \<open>TimeOld\<close> and \<open>TimeNow\<close>. Every helper is taken to return; timers and
  the percentage handed to \<open>PrintProgress\<close> are not recorded.
\<close>

record 'w Env =
  effect :: "FactorGraphConfig \<Rightarrow> call \<Rightarrow> 'w \<times> FactorGraph \<Rightarrow> 'w \<times> FactorGraph"
  io_effect :: "FactorGraphConfig \<Rightarrow> call \<Rightarrow> 'w \<Rightarrow> 'w"
  GetFirstTimestamp :: "FactorGraphConfig \<Rightarrow> 'w \<Rightarrow> real option"
  GetLastTimestamp :: "FactorGraphConfig \<Rightarrow> 'w \<Rightarrow> real option"
  IncrementTime :: "FactorGraphConfig \<Rightarrow> 'w \<Rightarrow> real \<Rightarrow> real \<Rightarrow> real \<Rightarrow> bool \<times> real \<times> real"
  isInitialized :: "'w \<Rightarrow> bool"

text \<open>
  A piece of the application: from the state before to an error, or to the state after
  together with the helper calls made, in order.
\<close>

type_synonym 'w proc = "'w \<times> FactorGraph \<Rightarrow> error + (('w \<times> FactorGraph) \<times> call list)"

definition no_op :: "'w proc" where
  "no_op st = Inr (st, [])"

definition then_run :: "'w proc \<Rightarrow> 'w proc \<Rightarrow> 'w proc" where
  "then_run p q st =
     (case p st of
        Inl e \<Rightarrow> Inl e
      | Inr (st', calls) \<Rightarrow>
          (case q st' of
             Inl e \<Rightarrow> Inl e
           | Inr (st'', calls') \<Rightarrow> Inr (st'', calls @ calls')))"

definition run_if :: "bool \<Rightarrow> 'w proc \<Rightarrow> 'w proc" where
  "run_if b p = (if b then p else no_op)"

definition call_helper :: "'w Env \<Rightarrow> FactorGraphConfig \<Rightarrow> call \<Rightarrow> 'w proc" where
  "call_helper env cfg c st = Inr (effect env cfg c st, [c])"

definition call_io :: "'w Env \<Rightarrow> FactorGraphConfig \<Rightarrow> call \<Rightarrow> 'w proc" where
  "call_io env cfg c st = Inr ((io_effect env cfg c (fst st), snd st), [c])"

definition graph_op :: "(FactorGraph \<Rightarrow> error + FactorGraph) \<Rightarrow> 'w proc" where
  "graph_op f st = (case f (snd st) of Inl e \<Rightarrow> Inl e | Inr g \<Rightarrow> Inr ((fst st, g), []))"

subsection \<open>Predict, Measure, InitGraph\<close>

definition Predict :: "'w Env \<Rightarrow> FactorGraphConfig \<Rightarrow> real \<Rightarrow> real \<Rightarrow> 'w proc" where
  "Predict env cfg TimeOld TimeNow =
     then_run
       (run_if (IsActive (IMU cfg)) (call_helper env cfg (AddIMU TimeOld TimeNow)))
       (run_if (IsActive (Odom cfg))
          (call_helper env cfg (AddOdometry (Type (Odom cfg)) Odom3 TimeOld TimeNow)))"

text \<open>
  The optional prior of \<open>Measure\<close>. \<open>Point\<close> is a \<open>Vector3\<close>, so the mean read must have three
  components, and \<open>Parameter(2)\<close> and \<open>Parameter.tail(3)\<close> need three parameters at least.
  A missing state is reported as the unknown key that \<open>addFactor\<close> would meet.
\<close>

definition tail :: "nat \<Rightarrow> Vector \<Rightarrow> Vector" where
  "tail n v = drop (length v - n) v"

definition add_prior :: "FactorGraphConfig \<Rightarrow> real \<Rightarrow> FactorGraph \<Rightarrow> error + FactorGraph" where
  "add_prior cfg TimeNow g =
     (case getElement g POSITION_STATE TimeNow of
        None \<Rightarrow> Inl UnknownStateError
      | Some v \<Rightarrow>
          if length (StateMean v) \<noteq> 3 \<or> length (Parameter (Prior cfg)) < 3 then Inl SizeMismatch
          else
            (let Point = (StateMean v)[2 := Parameter (Prior cfg) ! 2];
                 PriorPoint = \<lparr>DataKind = Point3, DataTime = TimeNow, DataMean = Point\<rparr>;
                 PriorNoise = setSqrtInformationDiagonal (tail 3 (Parameter (Prior cfg)))
             in addFactor Prior3 [(POSITION_STATE, TimeNow, 0)] PriorPoint PriorNoise g))"

definition Measure :: "'w Env \<Rightarrow> FactorGraphConfig \<Rightarrow> real \<Rightarrow> real \<Rightarrow> 'w proc" where
  "Measure env cfg TimeOld TimeNow =
     then_run
       (run_if (IsActive (GNSS cfg)) (call_helper env cfg (AddGNSS TimeOld TimeNow)))
       (run_if (IsActive (Prior cfg) \<and> Type (Prior cfg) = Prior3)
          (graph_op (add_prior cfg TimeNow)))"

definition InitGraph :: "'w Env \<Rightarrow> FactorGraphConfig \<Rightarrow> real \<Rightarrow> 'w proc" where
  "InitGraph env cfg TimeInitial =
     (let IsInitialized = IsActive (GNSS cfg) in
      then_run
        (run_if (IsActive (GNSS cfg)) (call_helper env cfg (InitWithGNSS TimeInitial 0.1)))
        (then_run
          (if IsActive (IMU cfg) then call_helper env cfg (InitIMU TimeInitial 2.0)
           else run_if (IsActive (Odom cfg))
                  (call_helper env cfg (InitOdom (Type (Odom cfg)) TimeInitial)))
          (run_if (\<not> IsInitialized)
            (then_run (graph_op (addState POSITION_STATE Point3 TimeInitial))
              (then_run
                (graph_op
                  (addFactor Prior3 [(POSITION_STATE, TimeInitial, 0)]
                     \<lparr>DataKind = Point3, DataTime = TimeInitial, DataMean = [0, 0, 0]\<rparr>
                     (setStdDevSharedDiagonal 3 1.0)))
                (graph_op (\<lambda>g. Inr (setAllConstantOutsideWindow 1.0 TimeInitial g))))))))"

subsection \<open>CreateGraphAndSolve and main\<close>

text \<open>
  C's \<open>fmod\<close>: the remainder of the division truncated toward zero, with the sign of the
  dividend.
\<close>

definition trunc :: "real \<Rightarrow> int" where
  "trunc x = (if 0 \<le> x then \<lfloor>x\<rfloor> else \<lceil>x\<rceil>)"

definition fmod :: "real \<Rightarrow> real \<Rightarrow> real" where
  "fmod x y = x - y * of_int (trunc (x / y))"

text \<open>
  One pass of the update loop, from resetting the summary to printing the progress. The
  force flag is compared on exact reals. The code rounds the difference and the product to
  double, and \<open>1.1\<close> is not a double, so where the two sides lie within rounding of each
  other the code's flag can differ from this one: from 5 to 55 the code compares 55 with
  55.00000000000001 and passes true, while \<open>55 < 50 * 1.1\<close> is false. The flags
  stated below are those of passes whose step is one second: there the code's product is
  the double nearest to 1.1, which lies above 1.1, and a remainder that is a double lies
  below the one exactly when it lies below the other.
\<close>

definition loop_body ::
  "'w Env \<Rightarrow> FactorGraphConfig \<Rightarrow> real \<Rightarrow> real \<Rightarrow> real \<Rightarrow> 'w proc"
where
  "loop_body env cfg TimeFirst TimeOld TimeNow =
     then_run (run_if (TimeNow > TimeFirst) (Predict env cfg TimeOld TimeNow))
       (then_run (Measure env cfg TimeOld TimeNow)
         (then_run (run_if (TimeNow = TimeFirst) (call_helper env cfg GraphSolve))
           (then_run
             (call_helper env cfg
                (Solve TimeNow (fmod TimeNow 60.0 < (TimeNow - TimeOld) * 1.1)))
             (then_run (call_helper env cfg (Save TimeNow False))
                (call_io env cfg PrintProgress)))))"

text \<open>
  The \<open>do ... while (IncrementTime(...))\<close> loop. Whether it ends depends on \<open>IncrementTime\<close>,
  so the model counts passes: with no pass left the result is \<open>None\<close>. A finished loop
  returns the passes made, each with its \<open>TimeOld\<close>, its \<open>TimeNow\<close> and its calls, the
  \<open>TimeNow\<close> left by the last \<open>IncrementTime\<close>, and the state.
\<close>

type_synonym step = "real \<times> real \<times> call list"

fun update_loop ::
  "nat \<Rightarrow> 'w Env \<Rightarrow> FactorGraphConfig \<Rightarrow> real \<Rightarrow> real \<Rightarrow> real \<Rightarrow> real \<Rightarrow> 'w \<times> FactorGraph \<Rightarrow>
   (error + (step list \<times> real \<times> ('w \<times> FactorGraph))) option"
where
  "update_loop 0 env cfg TimeFirst TimeLast TimeOld TimeNow st = None"
| "update_loop (Suc fuel) env cfg TimeFirst TimeLast TimeOld TimeNow st =
     (case loop_body env cfg TimeFirst TimeOld TimeNow st of
        Inl e \<Rightarrow> Some (Inl e)
      | Inr (st', calls) \<Rightarrow>
          (case IncrementTime env cfg (fst st') TimeOld TimeNow TimeLast of
             (True, TimeOld', TimeNow') \<Rightarrow>
               (case update_loop fuel env cfg TimeFirst TimeLast TimeOld' TimeNow' st' of
                  None \<Rightarrow> None
                | Some (Inl e) \<Rightarrow> Some (Inl e)
                | Some (Inr (steps, TimeEnd, st'')) \<Rightarrow>
                    Some (Inr ((TimeOld, TimeNow, calls) # steps, TimeEnd, st'')))
           | (False, TimeOld', TimeNow') \<Rightarrow>
               Some (Inr ([(TimeOld, TimeNow, calls)], TimeNow', st'))))"

text \<open>What follows the loop: the final solution, the conversion to the global frame, the report.\<close>

definition finish :: "'w Env \<Rightarrow> FactorGraphConfig \<Rightarrow> real \<Rightarrow> 'w proc" where
  "finish env cfg TimeNow =
     then_run (call_helper env cfg (Solve TimeNow True))
       (then_run (call_helper env cfg (Save TimeNow True))
         (then_run
           (\<lambda>st. run_if (IsActive (GNSS cfg) \<and> isInitialized env (fst st))
                   (then_run
                     (call_io env cfg
                        (WriteDataToFile (OutputFile cfg @ ''_local'') POSITION_STATE False))
                     (call_io env cfg (ConvertAllStatesToGlobal POSITION_STATE))) st)
           (call_io env cfg PrintReport)))"

text \<open>
  A call of \<open>CreateGraphAndSolve\<close> that returns: the status returned, the calls made before
  the loop, the passes of the loop, the calls made after it, and the final state.
\<close>

record 'w Run =
  Status :: int
  StartCalls :: "call list"
  Steps :: "step list"
  FinalCalls :: "call list"
  FinalState :: "'w \<times> FactorGraph"

definition give_up :: "'w Env \<Rightarrow> FactorGraphConfig \<Rightarrow> string \<Rightarrow> 'w \<times> FactorGraph \<Rightarrow> 'w Run" where
  "give_up env cfg msg st =
     \<lparr>Status = 1,
      StartCalls = [ReadDataFromFile (InputFile cfg), PRINT_ERROR msg],
      Steps = [], FinalCalls = [],
      FinalState = (io_effect env cfg (PRINT_ERROR msg) (fst st), snd st)\<rparr>"

text \<open>
  \<open>CreateGraphAndSolve\<close>. The measurements are read before the graph exists.
  \<open>GetFirstTimestamp\<close> is called twice in a row with the same arguments; the model asks once.
\<close>

definition CreateGraphAndSolve ::
  "nat \<Rightarrow> 'w Env \<Rightarrow> FactorGraphConfig \<Rightarrow> 'w \<Rightarrow> (error + 'w Run) option"
where
  "CreateGraphAndSolve fuel env cfg w =
     (let st0 = (io_effect env cfg (ReadDataFromFile (InputFile cfg)) w, EmptyGraph) in
      case GetFirstTimestamp env cfg (fst st0) of
        None \<Rightarrow> Some (Inr (give_up env cfg ''Could not find first Timestamp! Exit now!'' st0))
      | Some TimeFirst \<Rightarrow>
          (case GetLastTimestamp env cfg (fst st0) of
             None \<Rightarrow> Some (Inr (give_up env cfg ''Could not find last Timestamp! Exit now!'' st0))
           | Some TimeLast \<Rightarrow>
               (case InitGraph env cfg TimeFirst st0 of
                  Inl e \<Rightarrow> Some (Inl e)
                | Inr (st1, init_calls) \<Rightarrow>
                    (case update_loop fuel env cfg TimeFirst TimeLast (TimeFirst - 1) TimeFirst st1 of
                       None \<Rightarrow> None
                     | Some (Inl e) \<Rightarrow> Some (Inl e)
                     | Some (Inr (steps, TimeNow, st2)) \<Rightarrow>
                         (case finish env cfg TimeNow st2 of
                            Inl e \<Rightarrow> Some (Inl e)
                          | Inr (st3, final_calls) \<Rightarrow>
                              Some (Inr \<lparr>Status = 0,
                                         StartCalls = ReadDataFromFile (InputFile cfg) # init_calls,
                                         Steps = steps, FinalCalls = final_calls,
                                         FinalState = st3\<rparr>))))))"

text \<open>
  \<open>main\<close> (compiled when \<open>TESTMODE\<close> is not defined), from the parsed configuration on: the
  exit status of the process, the calls made after \<open>CreateGraphAndSolve\<close> returned, and that
  call's record.
\<close>

definition main ::
  "nat \<Rightarrow> 'w Env \<Rightarrow> FactorGraphConfig \<Rightarrow> 'w \<Rightarrow> (error + (int \<times> call list \<times> 'w Run)) option"
where
  "main fuel env cfg w =
     (case CreateGraphAndSolve fuel env cfg w of
        None \<Rightarrow> None
      | Some (Inl e) \<Rightarrow> Some (Inl e)
      | Some (Inr run) \<Rightarrow>
          (if Status run \<noteq> 0
           then Some (Inr (0, [PRINT_ERROR ''Something gone wrong while estimating GNSS position!''], run))
           else Some (Inr (0,
                  [WriteDataToFile (OutputFile cfg) POSITION_STATE False,
                   WriteDataToFile (OutputFile cfg) ORIENTATION_STATE True,
                   WriteDataToFile (OutputFile cfg) ANGLE_STATE True,
                   WriteDataToFile (OutputFile cfg) SOLVE_TIME_STATE True], run))))"

subsection \<open>Reading a record of calls\<close>

fun is_Solve :: "call \<Rightarrow> bool" where
  "is_Solve (Solve t force) = True"
| "is_Solve c = False"

text \<open>The calls by which \<open>Predict\<close> extends the graph with a motion model.\<close>

fun is_motion_call :: "call \<Rightarrow> bool" where
  "is_motion_call (AddIMU TimeOld TimeNow) = True"
| "is_motion_call (AddOdometry Kind Measurement TimeOld TimeNow) = True"
| "is_motion_call c = False"

definition step_solves :: "'w Run \<Rightarrow> call list list" where
  "step_solves run = map (\<lambda>(TimeOld, TimeNow, calls). filter is_Solve calls) (Steps run)"

text \<open>The helper calls of one pass of the loop, read off \<open>loop_body\<close>.\<close>

definition pass_calls :: "FactorGraphConfig \<Rightarrow> real \<Rightarrow> real \<Rightarrow> real \<Rightarrow> call list" where
  "pass_calls cfg TimeFirst TimeOld TimeNow =
     (if TimeNow > TimeFirst
      then (if IsActive (IMU cfg) then [AddIMU TimeOld TimeNow] else []) @
           (if IsActive (Odom cfg) then [AddOdometry (Type (Odom cfg)) Odom3 TimeOld TimeNow] else [])
      else []) @
     (if IsActive (GNSS cfg) then [AddGNSS TimeOld TimeNow] else []) @
     (if TimeNow = TimeFirst then [GraphSolve] else []) @
     [Solve TimeNow (fmod TimeNow 60.0 < (TimeNow - TimeOld) * 1.1), Save TimeNow False,
      PrintProgress]"

subsection \<open>Example inputs\<close>

text \<open>
  Helpers that leave graph and surroundings as they are, over measurements whose first
  timestamp is 30 and whose last is 31, with one timestamp per second.
\<close>

definition example_env :: "unit Env" where
  "example_env =
     \<lparr>effect = (\<lambda>cfg c st. st),
      io_effect = (\<lambda>cfg c w. w),
      GetFirstTimestamp = (\<lambda>cfg w. Some 30),
      GetLastTimestamp = (\<lambda>cfg w. Some 31),
      IncrementTime = (\<lambda>cfg w TimeOld TimeNow TimeLast.
         if TimeNow + 1 \<le> TimeLast then (True, TimeNow, TimeNow + 1)
         else (False, TimeOld, TimeNow)),
      isInitialized = (\<lambda>w. False)\<rparr>"

text \<open>The same over measurements in which no first timestamp is found.\<close>

definition no_data_env :: "unit Env" where
  "no_data_env = example_env\<lparr>GetFirstTimestamp := (\<lambda>cfg w. None)\<rparr>"

definition sensor_off :: SensorConfig where
  "sensor_off = \<lparr>IsActive = False, Type = OtherFactorType 0, Parameter = []\<rparr>"

definition sensor_on :: SensorConfig where
  "sensor_on = \<lparr>IsActive = True, Type = OtherFactorType 0, Parameter = []\<rparr>"

definition gnss_only_cfg :: FactorGraphConfig where
  "gnss_only_cfg =
     \<lparr>GNSS = sensor_on, IMU = sensor_off, Odom = sensor_off, Prior = sensor_off,
      InputFile = ''in'', OutputFile = ''out''\<rparr>"

definition all_motion_cfg :: FactorGraphConfig where
  "all_motion_cfg =
     \<lparr>GNSS = sensor_on, IMU = sensor_on, Odom = sensor_on, Prior = sensor_off,
      InputFile = ''in'', OutputFile = ''out''\<rparr>"

definition prior_only_cfg :: FactorGraphConfig where
  "prior_only_cfg =
     \<lparr>GNSS = sensor_off, IMU = sensor_off, Odom = sensor_off,
      Prior = \<lparr>IsActive = True, Type = Prior3, Parameter = [0, 0, 0, 2, 2, 2]\<rparr>,
      InputFile = ''in'', OutputFile = ''out''\<rparr>"

definition all_off_cfg :: FactorGraphConfig where
  "all_off_cfg =
     \<lparr>GNSS = sensor_off, IMU = sensor_off, Odom = sensor_off, Prior = sensor_off,
      InputFile = ''in'', OutputFile = ''out''\<rparr>"

text \<open>What \<open>CreateGraphAndSolve\<close> returns on the two examples with satellite navigation.\<close>

definition gnss_example_run :: "unit Run" where
  "gnss_example_run =
     \<lparr>Status = 0,
      StartCalls = [ReadDataFromFile ''in'', InitWithGNSS 30 0.1],
      Steps =
        [(29, 30, [AddGNSS 29 30, GraphSolve, Solve 30 False, Save 30 False, PrintProgress]),
         (30, 31, [AddGNSS 30 31, Solve 31 False, Save 31 False, PrintProgress])],
      FinalCalls = [Solve 31 True, Save 31 True, PrintReport],
      FinalState = ((), EmptyGraph)\<rparr>"

definition motion_example_run :: "unit Run" where
  "motion_example_run =
     \<lparr>Status = 0,
      StartCalls = [ReadDataFromFile ''in'', InitWithGNSS 30 0.1, InitIMU 30 2],
      Steps =
        [(29, 30, [AddGNSS 29 30, GraphSolve, Solve 30 False, Save 30 False, PrintProgress]),
         (30, 31, [AddIMU 30 31, AddOdometry (OtherFactorType 0) Odom3 30 31, AddGNSS 30 31,
                   Solve 31 False, Save 31 False, PrintProgress])],
      FinalCalls = [Solve 31 True, Save 31 True, PrintReport],
      FinalState = ((), EmptyGraph)\<rparr>"

section \<open>Properties of the resampling functions\<close>

lemma vec_add_nth:
  assumes "length a = n" "length b = n"
  shows "vec_add a b = Inr (map (\<lambda>i. a ! i + b ! i) [0..<n])"
proof -
  have "map2 (+) a b = map (\<lambda>i. a ! i + b ! i) [0..<n]"
    using assms by (intro nth_equalityI) simp_all
  then show ?thesis
    using assms by (simp add: vec_add_def)
qed

lemma average_loop_sums:
  assumes "\<forall>m \<in> set Input. length (Mean m) = n"
    and "\<forall>m \<in> set Input. length (Covariance m) = k"
    and "length M = n" and "length I = k"
  shows "average_loop Input (T, M, I) =
           Inr (T + (\<Sum>m\<leftarrow>Input. Timestamp m),
                map (\<lambda>i. M ! i + (\<Sum>m\<leftarrow>Input. Mean m ! i)) [0..<n],
                map (\<lambda>i. I ! i + (\<Sum>m\<leftarrow>Input. inverse (Covariance m ! i))) [0..<k])"
  using assms
proof (induction Input arbitrary: T M I)
  case Nil
  have "map ((!) M) [0..<n] = M" "map ((!) I) [0..<k] = I"
    using Nil map_nth [of M] map_nth [of I] by auto
  then show ?case by simp
next
  case (Cons x xs)
  have lx: "length (Mean x) = n" "length (cwiseInverse (Covariance x)) = k"
    using Cons.prems by (simp_all add: cwiseInverse_def)
  have a1: "vec_add M (Mean x) = Inr (map (\<lambda>i. M ! i + Mean x ! i) [0..<n])"
    using vec_add_nth [OF Cons.prems(3) lx(1)] .
  have a2: "vec_add I (cwiseInverse (Covariance x)) =
              Inr (map (\<lambda>i. I ! i + inverse (Covariance x ! i)) [0..<k])"
  proof -
    have "map (\<lambda>i. I ! i + cwiseInverse (Covariance x) ! i) [0..<k] =
          map (\<lambda>i. I ! i + inverse (Covariance x ! i)) [0..<k]"
      using Cons.prems(2) by (simp add: cwiseInverse_def)
    then show ?thesis
      using vec_add_nth [OF Cons.prems(4) lx(2)] by simp
  qed
  have ih: "average_loop xs (T + Timestamp x, map (\<lambda>i. M ! i + Mean x ! i) [0..<n],
                 map (\<lambda>i. I ! i + inverse (Covariance x ! i)) [0..<k]) =
            Inr (T + Timestamp x + (\<Sum>m\<leftarrow>xs. Timestamp m),
                 map (\<lambda>i. map (\<lambda>i. M ! i + Mean x ! i) [0..<n] ! i + (\<Sum>m\<leftarrow>xs. Mean m ! i)) [0..<n],
                 map (\<lambda>i. map (\<lambda>i. I ! i + inverse (Covariance x ! i)) [0..<k] ! i
                        + (\<Sum>m\<leftarrow>xs. inverse (Covariance m ! i))) [0..<k])"
    using Cons.prems by (intro Cons.IH) simp_all
  show ?case
    by (simp add: a1 a2 ih add.assoc)
qed

subsection \<open>Windows\<close>

lemma windows_concat:
  "averaging_windows TimeMax SampleTime xs W TN = (cl, pend) \<Longrightarrow> concat cl @ pend = W @ xs"
proof (induction xs arbitrary: W TN cl pend)
  case Nil
  then show ?case by simp
next
  case (Cons x xs)
  show ?case
  proof (cases "Timestamp x \<ge> TN \<or> Timestamp x = TimeMax")
    case True
    obtain cl' pend' where r: "averaging_windows TimeMax SampleTime xs [] (TN + SampleTime) = (cl', pend')"
      by (cases "averaging_windows TimeMax SampleTime xs [] (TN + SampleTime)")
    from Cons.prems True r have "cl = (W @ [x]) # cl'" "pend = pend'"
      by auto
    moreover from Cons.IH [OF r] have "concat cl' @ pend' = xs" by simp
    ultimately show ?thesis by simp
  next
    case False
    with Cons.prems have "averaging_windows TimeMax SampleTime xs (W @ [x]) TN = (cl, pend)"
      by auto
    from Cons.IH [OF this] show ?thesis by simp
  qed
qed

lemma windows_nonempty:
  "averaging_windows TimeMax SampleTime xs W TN = (cl, pend) \<Longrightarrow> [] \<notin> set cl"
proof (induction xs arbitrary: W TN cl pend)
  case Nil
  then show ?case by auto
next
  case (Cons x xs)
  show ?case
  proof (cases "Timestamp x \<ge> TN \<or> Timestamp x = TimeMax")
    case True
    obtain cl' pend' where r: "averaging_windows TimeMax SampleTime xs [] (TN + SampleTime) = (cl', pend')"
      by (cases "averaging_windows TimeMax SampleTime xs [] (TN + SampleTime)")
    from Cons.prems True r have "cl = (W @ [x]) # cl'"
      by auto
    with Cons.IH [OF r] show ?thesis by auto
  next
    case False
    with Cons.prems have "averaging_windows TimeMax SampleTime xs (W @ [x]) TN = (cl, pend)"
      by auto
    from Cons.IH [OF this] show ?thesis .
  qed
qed

lemma windows_none_pending:
  "xs \<noteq> [] \<Longrightarrow> Timestamp (last xs) = TimeMax \<Longrightarrow>
   snd (averaging_windows TimeMax SampleTime xs W TN) = []"
proof (induction xs arbitrary: W TN)
  case Nil
  then show ?case by simp
next
  case (Cons x xs)
  show ?case
  proof (cases "xs = []")
    case True
    with Cons.prems show ?thesis by simp
  next
    case False
    with Cons.prems have l: "Timestamp (last xs) = TimeMax" by simp
    from Cons.IH [OF False l] show ?thesis
      by (simp add: split_beta)
  qed
qed

lemma sample_loop_flush:
  "averaging_windows TimeMax SampleTime xs W TN = (cl, pend) \<Longrightarrow>
   sample_loop dflt TimeMax SampleTime xs (Out, W, TN, L) =
     (case flush_windows dflt cl of
        Inl e \<Rightarrow> Inl e
      | Inr (out, l) \<Rightarrow> Inr (Out @ out, pend, TN + real (length cl) * SampleTime, L @ l))"
proof (induction xs arbitrary: W TN cl pend Out L)
  case Nil
  then show ?case by simp
next
  case (Cons x xs)
  show ?case
  proof (cases "Timestamp x \<ge> TN \<or> Timestamp x = TimeMax")
    case True
    obtain cl' pend' where r: "averaging_windows TimeMax SampleTime xs [] (TN + SampleTime) = (cl', pend')"
      by (cases "averaging_windows TimeMax SampleTime xs [] (TN + SampleTime)")
    from Cons.prems True r have c: "cl = (W @ [x]) # cl'" "pend = pend'"
      by auto
    show ?thesis
    proof (cases "AverageMeasurement dflt (W @ [x])")
      case (Inl e)
      with True c show ?thesis by simp
    next
      case (Inr p)
      obtain Avg l where p: "p = (Avg, l)" by (cases p)
      show ?thesis
        using True c Inr p Cons.IH [OF r, of "Out @ [Avg\<lparr>Timestamp := Timestamp x\<rparr>]" "L @ l"]
        by (simp add: algebra_simps split: sum.splits prod.splits)
    qed
  next
    case False
    with Cons.prems have "averaging_windows TimeMax SampleTime xs (W @ [x]) TN = (cl, pend)"
      by auto
    from Cons.IH [OF this, of Out L] False show ?thesis by simp
  qed
qed

lemma flush_windows_shape:
  "flush_windows dflt ws = Inr (out, l) \<Longrightarrow>
   length out = length ws \<and> (\<forall>i < length ws. Timestamp (out ! i) = Timestamp (last (ws ! i)))"
proof (induction ws arbitrary: out l)
  case Nil
  then show ?case by simp
next
  case (Cons w ws)
  from Cons.prems obtain Avg l1 out' l2 where
    a: "AverageMeasurement dflt w = Inr (Avg, l1)" and
    f: "flush_windows dflt ws = Inr (out', l2)" and
    o: "out = Avg\<lparr>Timestamp := Timestamp (last w)\<rparr> # out'"
    by (auto split: sum.splits prod.splits)
  from Cons.IH [OF f] have ih: "length out' = length ws"
    "\<forall>i < length ws. Timestamp (out' ! i) = Timestamp (last (ws ! i))" by simp_all
  show ?case
  proof (intro conjI allI impI)
    show "length out = length (w # ws)" using o ih by simp
  next
    fix i assume "i < length (w # ws)"
    then show "Timestamp (out ! i) = Timestamp (last ((w # ws) ! i))"
      using o ih by (cases i) simp_all
  qed
qed

lemma average_succeeds:
  assumes "w \<noteq> []"
    and "\<forall>m \<in> set w. length (Mean m) = n"
    and "\<forall>m \<in> set w. length (Covariance m) = k"
  shows "\<exists>a. AverageMeasurement dflt w = Inr (a, [])"
proof (cases "length w = 1")
  case True
  then show ?thesis by (auto simp add: AverageMeasurement_def)
next
  case False
  from assms(1) have "hd w \<in> set w" by simp
  with assms have l: "length (Mean (hd w)) = n" "length (Covariance (hd w)) = k"
    by simp_all
  have "average_loop w (0, setZero n, setZero k) =
           Inr (0 + (\<Sum>m\<leftarrow>w. Timestamp m),
                map (\<lambda>i. setZero n ! i + (\<Sum>m\<leftarrow>w. Mean m ! i)) [0..<n],
                map (\<lambda>i. setZero k ! i + (\<Sum>m\<leftarrow>w. inverse (Covariance m ! i))) [0..<k])"
    using assms(2,3) by (intro average_loop_sums) (simp_all add: setZero_def)
  with False assms(1) l show ?thesis
    by (simp add: AverageMeasurement_def)
qed

lemma flush_succeeds:
  assumes "[] \<notin> set ws"
    and "\<forall>w \<in> set ws. \<forall>m \<in> set w. length (Mean m) = n"
    and "\<forall>w \<in> set ws. \<forall>m \<in> set w. length (Covariance m) = k"
  shows "\<exists>out. flush_windows dflt ws = Inr (out, [])"
  using assms
proof (induction ws)
  case Nil
  then show ?case by simp
next
  case (Cons w ws)
  from Cons.prems have "w \<noteq> []" "\<forall>m \<in> set w. length (Mean m) = n"
    "\<forall>m \<in> set w. length (Covariance m) = k"
    by auto
  from average_succeeds [OF this] obtain a where a: "AverageMeasurement dflt w = Inr (a, [])"
    by blast
  from Cons obtain out where "flush_windows dflt ws = Inr (out, [])"
    by auto
  with a show ?case by simp
qed

text \<open>
  C8, for measurements of one size. For a non-empty input with non-decreasing timestamps
  whose means all have one dimension and whose covariances all have one dimension, the
  windows of \<open>SampleMeasurementsDown\<close> partition the input in order: chaining the closed
  windows gives the input back, no window is empty, and no window is left open at the end
  (the last measurement carries the maximal timestamp, so it always closes its window). The
  function returns, and what it returns is the closing of exactly these windows, one after
  the other: one output element for each window, stamped with the time of the window's last
  measurement. So no measurement is dropped.
\<close>

theorem sample_windows_partition:
  assumes "Input \<noteq> []" and "sorted (map Timestamp Input)"
    and "\<forall>m \<in> set Input. length (Mean m) = n"
    and "\<forall>m \<in> set Input. length (Covariance m) = k"
  shows "\<exists>ws Output.
           averaging_windows (Timestamp (last Input)) SampleTime Input []
             (Timestamp (hd Input) + SampleTime) = (ws, [])
           \<and> concat ws = Input \<and> [] \<notin> set ws
           \<and> SampleMeasurementsDown dflt Input SampleTime = Inr (Output, [])
           \<and> flush_windows dflt ws = Inr (Output, [])
           \<and> length Output = length ws
           \<and> (\<forall>i < length ws. Timestamp (Output ! i) = Timestamp (last (ws ! i)))"
proof -
  obtain ws pend where w: "averaging_windows (Timestamp (last Input)) SampleTime Input []
                 (Timestamp (hd Input) + SampleTime) = (ws, pend)"
    by (cases "averaging_windows (Timestamp (last Input)) SampleTime Input []
                 (Timestamp (hd Input) + SampleTime)")
  have pend: "pend = []"
    using windows_none_pending [OF assms(1) refl, of SampleTime "[]" "Timestamp (hd Input) + SampleTime"] w
    by simp
  have part: "concat ws = Input"
    using windows_concat [OF w] pend by simp
  have ne: "[] \<notin> set ws"
    using windows_nonempty [OF w] .
  have eq: "SampleMeasurementsDown dflt Input SampleTime = flush_windows dflt ws"
    using assms(1) sample_loop_flush [OF w, of dflt "[]" "[]"]
    by (simp add: SampleMeasurementsDown_def split: sum.splits prod.splits)
  from part have sub: "\<forall>w \<in> set ws. set w \<subseteq> set Input"
    by auto
  have dm: "\<forall>w \<in> set ws. \<forall>m \<in> set w. length (Mean m) = n"
    using sub assms(3) by blast
  have dc: "\<forall>w \<in> set ws. \<forall>m \<in> set w. length (Covariance m) = k"
    using sub assms(4) by blast
  from flush_succeeds [OF ne dm dc] obtain Output where
    f: "flush_windows dflt ws = Inr (Output, [])"
    by blast
  from flush_windows_shape [OF f] have sh: "length Output = length ws"
    "\<forall>i < length ws. Timestamp (Output ! i) = Timestamp (last (ws ! i))"
    by simp_all
  from w pend part ne eq f sh show ?thesis by auto
qed

theorem sample_windows_partition_witness:
  "[\<lparr>Timestamp = 0, Mean = [1], Covariance = [1]\<rparr>,
    \<lparr>Timestamp = 2, Mean = [3], Covariance = [1]\<rparr>,
    \<lparr>Timestamp = 3, Mean = [5], Covariance = [2]\<rparr>] \<noteq> []
   \<and> sorted (map Timestamp
        [\<lparr>Timestamp = 0, Mean = [1], Covariance = [1]\<rparr>,
         \<lparr>Timestamp = 2, Mean = [3], Covariance = [1]\<rparr>,
         \<lparr>Timestamp = 3, Mean = [5], Covariance = [2]\<rparr>])
   \<and> averaging_windows 3 2
        [\<lparr>Timestamp = 0, Mean = [1], Covariance = [1]\<rparr>,
         \<lparr>Timestamp = 2, Mean = [3], Covariance = [1]\<rparr>,
         \<lparr>Timestamp = 3, Mean = [5], Covariance = [2]\<rparr>] [] (0 + 2)
       = ([[\<lparr>Timestamp = 0, Mean = [1], Covariance = [1]\<rparr>,
            \<lparr>Timestamp = 2, Mean = [3], Covariance = [1]\<rparr>],
           [\<lparr>Timestamp = 3, Mean = [5], Covariance = [2]\<rparr>]], [])
   \<and> SampleMeasurementsDown \<lparr>Timestamp = 0, Mean = [], Covariance = []\<rparr>
        [\<lparr>Timestamp = 0, Mean = [1], Covariance = [1]\<rparr>,
         \<lparr>Timestamp = 2, Mean = [3], Covariance = [1]\<rparr>,
         \<lparr>Timestamp = 3, Mean = [5], Covariance = [2]\<rparr>] 2
       = Inr ([\<lparr>Timestamp = 2, Mean = [2], Covariance = [1 / 2]\<rparr>,
               \<lparr>Timestamp = 3, Mean = [5], Covariance = [2]\<rparr>], [])"
proof -
  let ?i = "[\<lparr>Timestamp = 0, Mean = [1], Covariance = [1]\<rparr>,
    \<lparr>Timestamp = 2, Mean = [3], Covariance = [1]\<rparr>,
    \<lparr>Timestamp = 3::real, Mean = [5], Covariance = [2]\<rparr>]"
  have h1: "?i \<noteq> []" by simp
  have h2: "sorted (map Timestamp ?i)" by simp
  have h3: "\<forall>m \<in> set ?i. length (Mean m) = 1" by simp
  have h4: "\<forall>m \<in> set ?i. length (Covariance m) = 1" by simp
  from sample_windows_partition [OF h1 h2 h3 h4, of 2 "\<lparr>Timestamp = 0, Mean = [], Covariance = []\<rparr>"]
  show ?thesis
    by (simp add: AverageMeasurement_def setZero_def vec_add_def cwiseInverse_def vec_div_def)
qed

text \<open>
  Without the requirement on the sizes a window may not be closed into an output element:
  two measurements that share a window and whose means have two components and one do not
  add up, and the call ends in the size check of the addition.
\<close>

theorem sample_windows_partition_counterexample:
  "[\<lparr>Timestamp = 0, Mean = [1, 2], Covariance = [1]\<rparr>,
    \<lparr>Timestamp = 1, Mean = [3], Covariance = [1]\<rparr>] \<noteq> []
   \<and> sorted (map Timestamp
        [\<lparr>Timestamp = 0, Mean = [1, 2], Covariance = [1]\<rparr>,
         \<lparr>Timestamp = 1, Mean = [3], Covariance = [1]\<rparr>])
   \<and> SampleMeasurementsDown \<lparr>Timestamp = 0, Mean = [], Covariance = []\<rparr>
        [\<lparr>Timestamp = 0, Mean = [1, 2], Covariance = [1]\<rparr>,
         \<lparr>Timestamp = 1, Mean = [3], Covariance = [1]\<rparr>] 5 = Inl SizeMismatch"
  by (simp add: SampleMeasurementsDown_def AverageMeasurement_def setZero_def vec_add_def
      cwiseInverse_def)

subsection \<open>Degenerate inputs\<close>

text \<open>
  C7. On an empty input both functions write the error line and return normally:
  \<open>SampleMeasurementsDown\<close> returns the empty vector and \<open>AverageMeasurement\<close> returns the
  default-constructed measurement it started from.
\<close>

theorem empty_input_is_logged:
  "SampleMeasurementsDown dflt [] SampleTime = Inr ([], [''There is no Measurement!''])
   \<and> AverageMeasurement dflt [] = Inr (dflt, [''There is no Measurement!''])"
  by (simp add: SampleMeasurementsDown_def AverageMeasurement_def)

text \<open>
  C10. On a list of one element \<open>AverageMeasurement\<close> returns that element as it is, every
  member unchanged, and logs nothing.
\<close>

theorem average_of_single: "AverageMeasurement dflt [x] = Inr (x, [])"
  by (simp add: AverageMeasurement_def)

subsection \<open>Averaging\<close>

lemma sum_list_pos_nonempty:
  fixes f :: "'a \<Rightarrow> real"
  shows "xs \<noteq> [] \<Longrightarrow> \<forall>x \<in> set xs. 0 < f x \<Longrightarrow> 0 < (\<Sum>x\<leftarrow>xs. f x)"
proof (induction xs)
  case Nil
  then show ?case by simp
next
  case (Cons x xs)
  show ?case
  proof (cases "xs = []")
    case True
    with Cons.prems show ?thesis by simp
  next
    case False
    with Cons have "0 < (\<Sum>x\<leftarrow>xs. f x)" by simp
    moreover from Cons.prems have "0 < f x" by simp
    ultimately show ?thesis by simp
  qed
qed

text \<open>
  C9, for measurements of one size with positive covariances. For two or more measurements
  whose means have one dimension \<open>n\<close>, whose covariances have one dimension \<open>k\<close> and whose
  covariance entries are all positive, \<open>AverageMeasurement\<close> returns the last measurement with
  its timestamp replaced by the arithmetic mean of the timestamps, its mean by the
  component-wise arithmetic mean of the means, and its covariance by the component-wise
  reciprocal of the sum of the component-wise reciprocals of the covariances. Each of these
  sums is positive, so every reciprocal taken is the reciprocal of a non-zero number.
\<close>

theorem average_of_many:
  assumes "2 \<le> length Input"
    and "\<forall>m \<in> set Input. length (Mean m) = n"
    and "\<forall>m \<in> set Input. length (Covariance m) = k"
    and "\<forall>m \<in> set Input. \<forall>c \<in> set (Covariance m). 0 < c"
  shows "AverageMeasurement dflt Input =
           Inr ((last Input)
                  \<lparr>Timestamp := (\<Sum>m\<leftarrow>Input. Timestamp m) / real (length Input),
                   Mean := map (\<lambda>i. (\<Sum>m\<leftarrow>Input. Mean m ! i) / real (length Input)) [0..<n],
                   Covariance :=
                     map (\<lambda>i. 1 / (\<Sum>m\<leftarrow>Input. 1 / Covariance m ! i)) [0..<k]\<rparr>, [])
         \<and> (\<forall>i < k. 0 < (\<Sum>m\<leftarrow>Input. 1 / Covariance m ! i))"
proof -
  from assms(1) have ne: "Input \<noteq> []" "length Input \<noteq> 1" by auto
  then have "hd Input \<in> set Input" by simp
  with assms have l: "length (Mean (hd Input)) = n" "length (Covariance (hd Input)) = k"
    by simp_all
  have loop: "average_loop Input (0, setZero n, setZero k) =
           Inr (0 + (\<Sum>m\<leftarrow>Input. Timestamp m),
                map (\<lambda>i. setZero n ! i + (\<Sum>m\<leftarrow>Input. Mean m ! i)) [0..<n],
                map (\<lambda>i. setZero k ! i + (\<Sum>m\<leftarrow>Input. inverse (Covariance m ! i))) [0..<k])"
    using assms(2,3) by (intro average_loop_sums) (simp_all add: setZero_def)
  have z: "map (\<lambda>i. setZero n ! i + (\<Sum>m\<leftarrow>Input. Mean m ! i)) [0..<n] =
           map (\<lambda>i. (\<Sum>m\<leftarrow>Input. Mean m ! i)) [0..<n]"
       "map (\<lambda>i. setZero k ! i + (\<Sum>m\<leftarrow>Input. inverse (Covariance m ! i))) [0..<k] =
        map (\<lambda>i. (\<Sum>m\<leftarrow>Input. inverse (Covariance m ! i))) [0..<k]"
    by (simp_all add: setZero_def)
  have "AverageMeasurement dflt Input =
           Inr ((last Input)
                  \<lparr>Timestamp := (\<Sum>m\<leftarrow>Input. Timestamp m) / real (length Input),
                   Mean := map (\<lambda>i. (\<Sum>m\<leftarrow>Input. Mean m ! i) / real (length Input)) [0..<n],
                   Covariance :=
                     map (\<lambda>i. inverse (\<Sum>m\<leftarrow>Input. inverse (Covariance m ! i))) [0..<k]\<rparr>, [])"
    using ne
    by (simp add: AverageMeasurement_def l loop z vec_div_def cwiseInverse_def comp_def)
  then have val: "AverageMeasurement dflt Input =
           Inr ((last Input)
                  \<lparr>Timestamp := (\<Sum>m\<leftarrow>Input. Timestamp m) / real (length Input),
                   Mean := map (\<lambda>i. (\<Sum>m\<leftarrow>Input. Mean m ! i) / real (length Input)) [0..<n],
                   Covariance :=
                     map (\<lambda>i. 1 / (\<Sum>m\<leftarrow>Input. 1 / Covariance m ! i)) [0..<k]\<rparr>, [])"
    by (simp add: inverse_eq_divide)
  have pos: "\<forall>i < k. 0 < (\<Sum>m\<leftarrow>Input. 1 / Covariance m ! i)"
  proof (intro allI impI)
    fix i assume i: "i < k"
    have "\<forall>m \<in> set Input. 0 < 1 / Covariance m ! i"
    proof
      fix m assume m: "m \<in> set Input"
      with assms(3) i have "Covariance m ! i \<in> set (Covariance m)" by simp
      with assms(4) m show "0 < 1 / Covariance m ! i" by simp
    qed
    with ne(1) show "0 < (\<Sum>m\<leftarrow>Input. 1 / Covariance m ! i)"
      by (rule sum_list_pos_nonempty)
  qed
  from val pos show ?thesis by blast
qed

theorem average_of_many_witness:
  "2 \<le> length [\<lparr>Timestamp = 0, Mean = [1, 2], Covariance = [1, 2]\<rparr>,
                \<lparr>Timestamp = 2, Mean = [3, 4], Covariance = [1, 2]\<rparr>]
   \<and> AverageMeasurement \<lparr>Timestamp = 0, Mean = [], Covariance = []\<rparr>
        [\<lparr>Timestamp = 0, Mean = [1, 2], Covariance = [1, 2]\<rparr>,
         \<lparr>Timestamp = 2, Mean = [3, 4], Covariance = [1, 2]\<rparr>]
       = Inr (\<lparr>Timestamp = 1, Mean = [2, 3], Covariance = [1 / 2, 1]\<rparr>, [])"
  using average_of_many [of "[\<lparr>Timestamp = 0, Mean = [1, 2], Covariance = [1, 2]\<rparr>,
         \<lparr>Timestamp = 2, Mean = [3, 4], Covariance = [1, 2]\<rparr>]" 2 2
         "\<lparr>Timestamp = 0, Mean = [], Covariance = []\<rparr>"]
  by (simp add: upt_rec)

text \<open>
  Without the requirement on the sizes of the covariances the statement fails: for two
  measurements with one-dimensional means and non-zero covariances of two components and
  of one, the second covariance does not fit the accumulated information, and the call ends
  in the size check of the addition instead of returning the fused measurement.
\<close>

theorem average_of_many_counterexample:
  "AverageMeasurement \<lparr>Timestamp = 0, Mean = [], Covariance = []\<rparr>
     [\<lparr>Timestamp = 0, Mean = [1], Covariance = [1, 2]\<rparr>,
      \<lparr>Timestamp = 2, Mean = [3], Covariance = [1]\<rparr>] = Inl SizeMismatch"
  by (simp add: AverageMeasurement_def setZero_def vec_add_def cwiseInverse_def)

section \<open>Properties of the application\<close>

subsection \<open>The calls of each part\<close>

lemma then_run_Inr:
  "then_run p q st = Inr (st'', calls) \<Longrightarrow>
   \<exists>st' c1 c2. p st = Inr (st', c1) \<and> q st' = Inr (st'', c2) \<and> calls = c1 @ c2"
  by (auto simp: then_run_def split: sum.splits prod.splits)

lemma call_helper_Inr:
  "call_helper env cfg c st = Inr (st', calls) \<Longrightarrow> calls = [c]"
  by (auto simp: call_helper_def)

lemma call_io_Inr:
  "call_io env cfg c st = Inr (st', calls) \<Longrightarrow> calls = [c]"
  by (auto simp: call_io_def)

lemma graph_op_Inr:
  "graph_op f st = Inr (st', calls) \<Longrightarrow> calls = []"
  by (auto simp: graph_op_def split: sum.splits)

lemma run_if_Inr:
  "run_if b p st = Inr (st', calls) \<Longrightarrow>
   (b \<and> p st = Inr (st', calls)) \<or> (\<not> b \<and> calls = [])"
  by (cases b) (simp_all add: run_if_def no_op_def)

lemma Predict_calls:
  assumes "Predict env cfg TimeOld TimeNow st = Inr (st', calls)"
  shows "calls = (if IsActive (IMU cfg) then [AddIMU TimeOld TimeNow] else []) @
                 (if IsActive (Odom cfg)
                  then [AddOdometry (Type (Odom cfg)) Odom3 TimeOld TimeNow] else [])"
proof -
  from then_run_Inr [OF assms [unfolded Predict_def]] obtain st1 c1 c2 where
    p1: "run_if (IsActive (IMU cfg)) (call_helper env cfg (AddIMU TimeOld TimeNow)) st = Inr (st1, c1)"
    and p2: "run_if (IsActive (Odom cfg))
               (call_helper env cfg (AddOdometry (Type (Odom cfg)) Odom3 TimeOld TimeNow)) st1
             = Inr (st', c2)"
    and c: "calls = c1 @ c2"
    by blast
  from run_if_Inr [OF p1] have "c1 = (if IsActive (IMU cfg) then [AddIMU TimeOld TimeNow] else [])"
    by (auto dest: call_helper_Inr)
  moreover from run_if_Inr [OF p2]
  have "c2 = (if IsActive (Odom cfg)
              then [AddOdometry (Type (Odom cfg)) Odom3 TimeOld TimeNow] else [])"
    by (auto dest: call_helper_Inr)
  ultimately show ?thesis using c by simp
qed

lemma Measure_calls:
  assumes "Measure env cfg TimeOld TimeNow st = Inr (st', calls)"
  shows "calls = (if IsActive (GNSS cfg) then [AddGNSS TimeOld TimeNow] else [])"
proof -
  from then_run_Inr [OF assms [unfolded Measure_def]] obtain st1 c1 c2 where
    p1: "run_if (IsActive (GNSS cfg)) (call_helper env cfg (AddGNSS TimeOld TimeNow)) st = Inr (st1, c1)"
    and p2: "run_if (IsActive (Prior cfg) \<and> Type (Prior cfg) = Prior3)
               (graph_op (add_prior cfg TimeNow)) st1 = Inr (st', c2)"
    and c: "calls = c1 @ c2"
    by blast
  from run_if_Inr [OF p1] have "c1 = (if IsActive (GNSS cfg) then [AddGNSS TimeOld TimeNow] else [])"
    by (auto dest: call_helper_Inr)
  moreover from run_if_Inr [OF p2] have "c2 = []"
    by (auto dest: graph_op_Inr)
  ultimately show ?thesis using c by simp
qed

lemma loop_body_calls:
  assumes "loop_body env cfg TimeFirst TimeOld TimeNow st = Inr (st', calls)"
  shows "calls = pass_calls cfg TimeFirst TimeOld TimeNow"
proof -
  from then_run_Inr [OF assms [unfolded loop_body_def]] obtain s1 c1 r1 where
    a1: "run_if (TimeNow > TimeFirst) (Predict env cfg TimeOld TimeNow) st = Inr (s1, c1)"
    and b1: "then_run (Measure env cfg TimeOld TimeNow)
         (then_run (run_if (TimeNow = TimeFirst) (call_helper env cfg GraphSolve))
           (then_run
             (call_helper env cfg
                (Solve TimeNow (fmod TimeNow 60.0 < (TimeNow - TimeOld) * 1.1)))
             (then_run (call_helper env cfg (Save TimeNow False))
                (call_io env cfg PrintProgress)))) s1 = Inr (st', r1)"
    and e1: "calls = c1 @ r1"
    by blast
  from then_run_Inr [OF b1] obtain s2 c2 r2 where
    a2: "Measure env cfg TimeOld TimeNow s1 = Inr (s2, c2)"
    and b2: "then_run (run_if (TimeNow = TimeFirst) (call_helper env cfg GraphSolve))
           (then_run
             (call_helper env cfg
                (Solve TimeNow (fmod TimeNow 60.0 < (TimeNow - TimeOld) * 1.1)))
             (then_run (call_helper env cfg (Save TimeNow False))
                (call_io env cfg PrintProgress))) s2 = Inr (st', r2)"
    and e2: "r1 = c2 @ r2"
    by blast
  from then_run_Inr [OF b2] obtain s3 c3 r3 where
    a3: "run_if (TimeNow = TimeFirst) (call_helper env cfg GraphSolve) s2 = Inr (s3, c3)"
    and b3: "then_run
             (call_helper env cfg
                (Solve TimeNow (fmod TimeNow 60.0 < (TimeNow - TimeOld) * 1.1)))
             (then_run (call_helper env cfg (Save TimeNow False))
                (call_io env cfg PrintProgress)) s3 = Inr (st', r3)"
    and e3: "r2 = c3 @ r3"
    by blast
  from then_run_Inr [OF b3] obtain s4 c4 r4 where
    a4: "call_helper env cfg
           (Solve TimeNow (fmod TimeNow 60.0 < (TimeNow - TimeOld) * 1.1)) s3 = Inr (s4, c4)"
    and b4: "then_run (call_helper env cfg (Save TimeNow False))
                (call_io env cfg PrintProgress) s4 = Inr (st', r4)"
    and e4: "r3 = c4 @ r4"
    by blast
  from then_run_Inr [OF b4] obtain s5 c5 c6 where
    a5: "call_helper env cfg (Save TimeNow False) s4 = Inr (s5, c5)"
    and a6: "call_io env cfg PrintProgress s5 = Inr (st', c6)"
    and e5: "r4 = c5 @ c6"
    by blast
  have k1: "c1 = (if TimeNow > TimeFirst
      then (if IsActive (IMU cfg) then [AddIMU TimeOld TimeNow] else []) @
           (if IsActive (Odom cfg) then [AddOdometry (Type (Odom cfg)) Odom3 TimeOld TimeNow] else [])
      else [])"
    using run_if_Inr [OF a1] by (auto dest: Predict_calls)
  have k2: "c2 = (if IsActive (GNSS cfg) then [AddGNSS TimeOld TimeNow] else [])"
    using Measure_calls [OF a2] .
  have k3: "c3 = (if TimeNow = TimeFirst then [GraphSolve] else [])"
    using run_if_Inr [OF a3] by (auto dest: call_helper_Inr)
  have k4: "c4 = [Solve TimeNow (fmod TimeNow 60.0 < (TimeNow - TimeOld) * 1.1)]"
    using call_helper_Inr [OF a4] .
  have k5: "c5 = [Save TimeNow False]" "c6 = [PrintProgress]"
    using call_helper_Inr [OF a5] call_io_Inr [OF a6] by simp_all
  show ?thesis
    unfolding pass_calls_def e1 e2 e3 e4 e5 k1 k2 k3 k4 k5 by simp
qed

lemma update_loop_steps:
  "update_loop fuel env cfg TimeFirst TimeLast TimeOld TimeNow st = Some (Inr (steps, TimeEnd, st')) \<Longrightarrow>
   (\<exists>rest. steps = (TimeOld, TimeNow, pass_calls cfg TimeFirst TimeOld TimeNow) # rest)
   \<and> (\<forall>(a, b, calls) \<in> set steps. calls = pass_calls cfg TimeFirst a b)"
proof (induction fuel arbitrary: TimeOld TimeNow st steps TimeEnd st')
  case 0
  then show ?case by simp
next
  case (Suc fuel)
  from Suc.prems obtain s1 calls where
    body: "loop_body env cfg TimeFirst TimeOld TimeNow st = Inr (s1, calls)"
    by (auto split: sum.splits)
  have calls: "calls = pass_calls cfg TimeFirst TimeOld TimeNow"
    using loop_body_calls [OF body] .
  obtain again o' n' where inc: "IncrementTime env cfg (fst s1) TimeOld TimeNow TimeLast = (again, o', n')"
    by (cases "IncrementTime env cfg (fst s1) TimeOld TimeNow TimeLast")
  show ?case
  proof (cases again)
    case False
    with Suc.prems body inc have "steps = [(TimeOld, TimeNow, calls)]"
      by simp
    with calls show ?thesis by simp
  next
    case True
    with Suc.prems body inc obtain rest where
      r: "update_loop fuel env cfg TimeFirst TimeLast o' n' s1 = Some (Inr (rest, TimeEnd, st'))"
      and s: "steps = (TimeOld, TimeNow, calls) # rest"
      by (auto split: option.splits sum.splits)
    from Suc.IH [OF r] have "\<forall>(a, b, calls) \<in> set rest. calls = pass_calls cfg TimeFirst a b"
      by simp
    with s calls show ?thesis by simp
  qed
qed

lemma update_loop_later:
  assumes inc: "\<forall>w a b l. fst (IncrementTime env cfg w a b l) \<longrightarrow>
                          b < snd (snd (IncrementTime env cfg w a b l))"
  shows "update_loop fuel env cfg TimeFirst TimeLast TimeOld TimeNow st = Some (Inr (steps, TimeEnd, st')) \<Longrightarrow>
   \<forall>i. 0 < i \<and> i < length steps \<longrightarrow> TimeNow < fst (snd (steps ! i))"
proof (induction fuel arbitrary: TimeOld TimeNow st steps TimeEnd st')
  case 0
  then show ?case by simp
next
  case (Suc fuel)
  from Suc.prems obtain s1 calls where
    body: "loop_body env cfg TimeFirst TimeOld TimeNow st = Inr (s1, calls)"
    by (auto split: sum.splits)
  obtain again o' n' where i: "IncrementTime env cfg (fst s1) TimeOld TimeNow TimeLast = (again, o', n')"
    by (cases "IncrementTime env cfg (fst s1) TimeOld TimeNow TimeLast")
  show ?case
  proof (cases again)
    case False
    with Suc.prems body i have "steps = [(TimeOld, TimeNow, calls)]"
      by simp
    then show ?thesis by auto
  next
    case True
    with inc i have n': "TimeNow < n'"
      by (metis fst_conv snd_conv)
    from True Suc.prems body i obtain rest where
      r: "update_loop fuel env cfg TimeFirst TimeLast o' n' s1 = Some (Inr (rest, TimeEnd, st'))"
      and s: "steps = (TimeOld, TimeNow, calls) # rest"
      by (auto split: option.splits sum.splits)
    from update_loop_steps [OF r] obtain rest' where
      h: "rest = (o', n', pass_calls cfg TimeFirst o' n') # rest'"
      by blast
    from Suc.IH [OF r] have ih: "\<forall>i. 0 < i \<and> i < length rest \<longrightarrow> n' < fst (snd (rest ! i))" .
    show ?thesis
    proof (intro allI impI)
      fix i assume a: "0 < i \<and> i < length steps"
      then obtain j where j: "i = Suc j" by (cases i) auto
      show "TimeNow < fst (snd (steps ! i))"
      proof (cases j)
        case 0
        with j s h n' show ?thesis by simp
      next
        case (Suc k)
        with a j s have "0 < j \<and> j < length rest" by simp
        with ih have "n' < fst (snd (rest ! j))" by blast
        with n' j s show ?thesis by simp
      qed
    qed
  qed
qed

lemma finish_calls:
  assumes "finish env cfg TimeNow st = Inr (st', calls)"
  shows "\<exists>rest. calls = Solve TimeNow True # Save TimeNow True # rest \<and> filter is_Solve rest = []"
proof -
  from then_run_Inr [OF assms [unfolded finish_def]] obtain s1 c1 r1 where
    a1: "call_helper env cfg (Solve TimeNow True) st = Inr (s1, c1)"
    and b1: "then_run (call_helper env cfg (Save TimeNow True))
         (then_run
           (\<lambda>st. run_if (IsActive (GNSS cfg) \<and> isInitialized env (fst st))
                   (then_run
                     (call_io env cfg
                        (WriteDataToFile (OutputFile cfg @ ''_local'') POSITION_STATE False))
                     (call_io env cfg (ConvertAllStatesToGlobal POSITION_STATE))) st)
           (call_io env cfg PrintReport)) s1 = Inr (st', r1)"
    and e1: "calls = c1 @ r1"
    by blast
  from then_run_Inr [OF b1] obtain s2 c2 r2 where
    a2: "call_helper env cfg (Save TimeNow True) s1 = Inr (s2, c2)"
    and b2: "then_run
           (\<lambda>st. run_if (IsActive (GNSS cfg) \<and> isInitialized env (fst st))
                   (then_run
                     (call_io env cfg
                        (WriteDataToFile (OutputFile cfg @ ''_local'') POSITION_STATE False))
                     (call_io env cfg (ConvertAllStatesToGlobal POSITION_STATE))) st)
           (call_io env cfg PrintReport) s2 = Inr (st', r2)"
    and e2: "r1 = c2 @ r2"
    by blast
  from then_run_Inr [OF b2] obtain s3 c3 c4 where
    a3: "run_if (IsActive (GNSS cfg) \<and> isInitialized env (fst s2))
                   (then_run
                     (call_io env cfg
                        (WriteDataToFile (OutputFile cfg @ ''_local'') POSITION_STATE False))
                     (call_io env cfg (ConvertAllStatesToGlobal POSITION_STATE))) s2 = Inr (s3, c3)"
    and a4: "call_io env cfg PrintReport s3 = Inr (st', c4)"
    and e3: "r2 = c3 @ c4"
    by blast
  have "filter is_Solve c3 = []"
    using run_if_Inr [OF a3]
    by (auto dest!: then_run_Inr call_io_Inr)
  moreover have "c4 = [PrintReport]" using call_io_Inr [OF a4] .
  moreover have "c1 = [Solve TimeNow True]" "c2 = [Save TimeNow True]"
    using call_helper_Inr [OF a1] call_helper_Inr [OF a2] by simp_all
  ultimately show ?thesis
    using e1 e2 e3 by simp
qed

text \<open>A call that returned with status 0 went through the loop.\<close>

lemma completed_run:
  assumes "CreateGraphAndSolve fuel env cfg w = Some (Inr run)" and "Status run = 0"
    and "GetFirstTimestamp env cfg (io_effect env cfg (ReadDataFromFile (InputFile cfg)) w) = Some TimeFirst"
  shows "\<exists>TimeLast st1 TimeEnd st2 st3.
           update_loop fuel env cfg TimeFirst TimeLast (TimeFirst - 1) TimeFirst st1
             = Some (Inr (Steps run, TimeEnd, st2))
           \<and> finish env cfg TimeEnd st2 = Inr (st3, FinalCalls run)"
  using assms
  by (fastforce simp: CreateGraphAndSolve_def Let_def give_up_def
        split: option.splits sum.splits prod.splits)

text \<open>
  The count of passes only bounds the loop: a result reached within some bound is reached
  within every larger one.
\<close>

lemma update_loop_more_fuel:
  "update_loop fuel env cfg TimeFirst TimeLast TimeOld TimeNow st = Some r \<Longrightarrow>
   update_loop (fuel + k) env cfg TimeFirst TimeLast TimeOld TimeNow st = Some r"
proof (induction fuel arbitrary: TimeOld TimeNow st r)
  case 0
  then show ?case by simp
next
  case (Suc fuel)
  show ?case
  proof (cases "loop_body env cfg TimeFirst TimeOld TimeNow st")
    case (Inl e)
    with Suc.prems show ?thesis by simp
  next
    case (Inr p)
    obtain s1 calls where p: "p = (s1, calls)" by (cases p)
    obtain again o' n' where i: "IncrementTime env cfg (fst s1) TimeOld TimeNow TimeLast = (again, o', n')"
      by (cases "IncrementTime env cfg (fst s1) TimeOld TimeNow TimeLast")
    show ?thesis
    proof (cases again)
      case False
      with Suc.prems Inr p i show ?thesis by simp
    next
      case True
      with Suc.prems Inr p i obtain r' where
        r': "update_loop fuel env cfg TimeFirst TimeLast o' n' s1 = Some r'"
        by (auto split: option.splits)
      from Suc.IH [OF r'] Suc.prems Inr p i True r' show ?thesis by simp
    qed
  qed
qed

lemma filter_motion_pass_calls:
  "filter is_motion_call (pass_calls cfg TimeFirst a b) =
     (if TimeFirst < b
      then (if IsActive (IMU cfg) then [AddIMU a b] else []) @
           (if IsActive (Odom cfg) then [AddOdometry (Type (Odom cfg)) Odom3 a b] else [])
      else [])"
  by (simp add: pass_calls_def)

lemma pass_calls_first:
  "pass_calls cfg TimeFirst (TimeFirst - 1) TimeFirst =
     (if IsActive (GNSS cfg) then [AddGNSS (TimeFirst - 1) TimeFirst] else []) @
     [GraphSolve, Solve TimeFirst (fmod TimeFirst 60 < 1.1), Save TimeFirst False, PrintProgress]"
  by (simp add: pass_calls_def)

subsection \<open>The example runs\<close>

lemmas app_defs =
  CreateGraphAndSolve_def InitGraph_def loop_body_def finish_def Predict_def Measure_def
  then_run_def run_if_def no_op_def call_helper_def call_io_def graph_op_def
  example_env_def sensor_on_def sensor_off_def fmod_def trunc_def

lemma example_run_gnss:
  "CreateGraphAndSolve (Suc (Suc (Suc 0))) example_env gnss_only_cfg () = Some (Inr gnss_example_run)"
  by (simp add: app_defs gnss_only_cfg_def gnss_example_run_def)

lemma example_run_motion:
  "CreateGraphAndSolve (Suc (Suc (Suc 0))) example_env all_motion_cfg () = Some (Inr motion_example_run)"
  by (simp add: app_defs all_motion_cfg_def motion_example_run_def)

lemma example_first_timestamp:
  "GetFirstTimestamp example_env cfg (io_effect example_env cfg (ReadDataFromFile (InputFile cfg)) ())
     = Some 30"
  by (simp add: example_env_def)

subsection \<open>Initialisation\<close>

lemma InitGraph_fallback:
  assumes "\<not> IsActive (GNSS cfg)" "\<not> IsActive (IMU cfg)" "\<not> IsActive (Odom cfg)"
  shows "InitGraph env cfg TimeInitial (w, EmptyGraph) =
     Inr ((w,
           \<lparr>States =
              [\<lparr>StateName = POSITION_STATE, StateTime = TimeInitial, StateNumber = 0,
                StateType = Point3, StateMean = [0, 0, 0], IsConstant = False\<rparr>],
            Factors =
              [\<lparr>FactorKind = Prior3, FactorStates = [(POSITION_STATE, TimeInitial, 0)],
                FactorData = \<lparr>DataKind = Point3, DataTime = TimeInitial, DataMean = [0, 0, 0]\<rparr>,
                FactorNoise = \<lparr>SqrtInformation = [1, 1, 1]\<rparr>\<rparr>]\<rparr>), [])"
  using assms
  by (simp add: InitGraph_def then_run_def run_if_def no_op_def graph_op_def addState_def
      addFactor_def checkState_def StateKey_def EmptyGraph_def setAllConstantOutsideWindow_def
      setStdDevSharedDiagonal_def numeral_3_eq_3)

text \<open>
  C1. With satellite navigation, inertial and odometry sensing all inactive, \<open>InitGraph\<close> on
  an empty graph calls no helper and takes the fallback branch: the graph then holds exactly
  one state, the position at the initial timestamp, and exactly one factor, a \<open>Prior3\<close> with
  standard deviation 1 in each component. That state is still free after the call
  \<open>setAllConstantOutsideWindow(1.0, TimeInitial)\<close>: the call freezes what lies strictly before
  \<open>TimeInitial - 1\<close>, and the anchor lies at \<open>TimeInitial\<close>. The comment above the call
  (\<open>freeze initial states\<close>) and section 4.2 of the specification expect it frozen.
\<close>

theorem fallback_anchor_stays_free:
  assumes "\<not> IsActive (GNSS cfg)" "\<not> IsActive (IMU cfg)" "\<not> IsActive (Odom cfg)"
  shows "\<exists>g. InitGraph env cfg TimeInitial (w, EmptyGraph) = Inr ((w, g), [])
           \<and> map StateKey (States g) = [(POSITION_STATE, TimeInitial, 0)]
           \<and> map FactorKind (Factors g) = [Prior3]
           \<and> map (\<lambda>f. StdDevOf (FactorNoise f)) (Factors g) = [[1, 1, 1]]
           \<and> map IsConstant (States g) = [False]"
  unfolding InitGraph_fallback [OF assms]
  by (simp add: StateKey_def StdDevOf_def)

theorem fallback_anchor_stays_free_witness:
  "\<not> IsActive (GNSS all_off_cfg) \<and> \<not> IsActive (IMU all_off_cfg) \<and> \<not> IsActive (Odom all_off_cfg)
   \<and> (\<exists>g. InitGraph example_env all_off_cfg 30 ((), EmptyGraph) = Inr (((), g), [])
          \<and> map StateKey (States g) = [(POSITION_STATE, 30, 0)]
          \<and> map IsConstant (States g) = [False])"
proof -
  have h: "\<not> IsActive (GNSS all_off_cfg)" "\<not> IsActive (IMU all_off_cfg)"
    "\<not> IsActive (Odom all_off_cfg)"
    by (simp_all add: all_off_cfg_def sensor_off_def)
  from fallback_anchor_stays_free [OF h, of example_env 30 "()"] h
  show ?thesis by auto
qed

text \<open>
  C5, with the standard deviation the code uses. With only the prior active and a parameter
  vector \<open>[x, y, z, sx, sy, sz]\<close>, after \<open>InitGraph\<close> on an empty graph there is exactly one
  state, the position at the initial timestamp with mean \<open>[0, 0, 0]\<close>, and exactly one
  factor, a \<open>Prior3\<close> centred at \<open>[0, 0, 0]\<close> whose standard deviation is 1 in each component,
  whatever the parameters are. \<open>InitGraph\<close> does not read the parameters; \<open>Measure\<close> does.
\<close>

theorem fallback_ignores_prior_parameters:
  assumes "\<not> IsActive (GNSS cfg)" "\<not> IsActive (IMU cfg)" "\<not> IsActive (Odom cfg)"
    and "IsActive (Prior cfg)" and "Parameter (Prior cfg) = [x, y, z, sx, sy, sz]"
  shows "\<exists>g. InitGraph env cfg TimeInitial (w, EmptyGraph) = Inr ((w, g), [])
           \<and> map (\<lambda>v. (StateName v, StateTime v, StateMean v)) (States g)
               = [(POSITION_STATE, TimeInitial, [0, 0, 0])]
           \<and> map (\<lambda>f. (FactorKind f, DataMean (FactorData f), StdDevOf (FactorNoise f))) (Factors g)
               = [(Prior3, [0, 0, 0], [1, 1, 1])]"
  unfolding InitGraph_fallback [OF assms(1-3)]
  by (simp add: StdDevOf_def)

theorem fallback_ignores_prior_parameters_witness:
  "\<not> IsActive (GNSS prior_only_cfg) \<and> \<not> IsActive (IMU prior_only_cfg)
   \<and> \<not> IsActive (Odom prior_only_cfg) \<and> IsActive (Prior prior_only_cfg)
   \<and> Parameter (Prior prior_only_cfg) = [0, 0, 0, 2, 2, 2]
   \<and> (\<exists>g. InitGraph example_env prior_only_cfg 30 ((), EmptyGraph) = Inr (((), g), [])
          \<and> map (\<lambda>f. StdDevOf (FactorNoise f)) (Factors g) = [[1, 1, 1]])"
proof -
  have h: "\<not> IsActive (GNSS prior_only_cfg)" "\<not> IsActive (IMU prior_only_cfg)"
    "\<not> IsActive (Odom prior_only_cfg)" "IsActive (Prior prior_only_cfg)"
    "Parameter (Prior prior_only_cfg) = [0, 0, 0, 2, 2, 2]"
    by (simp_all add: prior_only_cfg_def sensor_off_def)
  from fallback_ignores_prior_parameters [OF h, of example_env 30 "()"] h
  show ?thesis by auto
qed

text \<open>
  The standard deviation is not the one of the parameter vector: with the parameters
  \<open>[0, 0, 0, 2, 2, 2]\<close> the one factor after \<open>InitGraph\<close> has standard deviation
  \<open>[1, 1, 1]\<close>.
\<close>

theorem fallback_ignores_prior_parameters_counterexample:
  "map_sum id (\<lambda>(st, calls). map (\<lambda>f. StdDevOf (FactorNoise f)) (Factors (snd st)))
     (InitGraph example_env prior_only_cfg 30 ((), EmptyGraph)) = Inr [[1, 1, 1]]
   \<and> tail 3 (Parameter (Prior prior_only_cfg)) = [2, 2, 2]"
  by (simp add: InitGraph_fallback prior_only_cfg_def sensor_off_def StdDevOf_def tail_def)

subsection \<open>Scheduling the solves\<close>

text \<open>
  C2, as the code schedules the solves. In a call of \<open>CreateGraphAndSolve\<close> that ran to its
  end, the first pass runs \<open>Graph.solve\<close> directly and then calls \<open>Solve\<close> with the flag of the
  formula, which at that pass is \<open>fmod(TimeFirst, 60) < 1.1\<close>; after the loop \<open>Solve\<close> is
  called once more, with the force flag set, and that is the only call of \<open>Solve\<close> there.
\<close>

theorem first_and_final_solve:
  assumes "CreateGraphAndSolve fuel env cfg w = Some (Inr run)" and "Status run = 0"
    and "GetFirstTimestamp env cfg (io_effect env cfg (ReadDataFromFile (InputFile cfg)) w)
           = Some TimeFirst"
  shows "(\<exists>rest. Steps run =
            (TimeFirst - 1, TimeFirst,
             (if IsActive (GNSS cfg) then [AddGNSS (TimeFirst - 1) TimeFirst] else []) @
             [GraphSolve, Solve TimeFirst (fmod TimeFirst 60 < 1.1), Save TimeFirst False,
              PrintProgress]) # rest)
       \<and> (\<exists>t rest. FinalCalls run = Solve t True # Save t True # rest \<and> filter is_Solve rest = [])"
proof -
  from completed_run [OF assms] obtain TimeLast st1 TimeEnd st2 st3 where
    loop: "update_loop fuel env cfg TimeFirst TimeLast (TimeFirst - 1) TimeFirst st1
             = Some (Inr (Steps run, TimeEnd, st2))"
    and fin: "finish env cfg TimeEnd st2 = Inr (st3, FinalCalls run)"
    by blast
  from update_loop_steps [OF loop] have
    "\<exists>rest. Steps run = (TimeFirst - 1, TimeFirst, pass_calls cfg TimeFirst (TimeFirst - 1) TimeFirst) # rest"
    by blast
  then have a: "\<exists>rest. Steps run =
            (TimeFirst - 1, TimeFirst,
             (if IsActive (GNSS cfg) then [AddGNSS (TimeFirst - 1) TimeFirst] else []) @
             [GraphSolve, Solve TimeFirst (fmod TimeFirst 60 < 1.1), Save TimeFirst False,
              PrintProgress]) # rest"
    unfolding pass_calls_first .
  from finish_calls [OF fin] have
    b: "\<exists>t rest. FinalCalls run = Solve t True # Save t True # rest \<and> filter is_Solve rest = []"
    by blast
  from a b show ?thesis by blast
qed

theorem first_and_final_solve_witness:
  "CreateGraphAndSolve (Suc (Suc (Suc 0))) example_env gnss_only_cfg () = Some (Inr gnss_example_run)
   \<and> Status gnss_example_run = 0
   \<and> snd (snd (hd (Steps gnss_example_run))) =
       [AddGNSS (30 - 1) 30, GraphSolve, Solve 30 (fmod 30 60 < 1.1), Save 30 False, PrintProgress]
   \<and> hd (FinalCalls gnss_example_run) = Solve 31 True"
proof -
  have h: "Status gnss_example_run = 0" by (simp add: gnss_example_run_def)
  from first_and_final_solve [OF example_run_gnss h example_first_timestamp]
  show ?thesis
    using example_run_gnss h
    by (simp add: gnss_example_run_def fmod_def trunc_def)
qed

text \<open>
  The flag of the first pass is not always set: with 30 as the first timestamp the
  \<open>Solve\<close> call of the first pass is made with the force flag cleared.
\<close>

theorem first_and_final_solve_counterexample:
  "map_option (map_sum id step_solves)
     (CreateGraphAndSolve (Suc (Suc (Suc 0))) example_env gnss_only_cfg ())
   = Some (Inr [[Solve 30 False], [Solve 31 False]])"
  by (simp add: example_run_gnss gnss_example_run_def step_solves_def)

subsection \<open>Predict\<close>

text \<open>
  C6. In a call of \<open>CreateGraphAndSolve\<close> that ran to its end, the first pass of the loop is
  the one at \<open>TimeFirst\<close> and makes no call of \<open>AddIMU\<close> or \<open>AddOdometry\<close>; a pass whose
  \<open>TimeNow\<close> lies after \<open>TimeFirst\<close> calls \<open>AddIMU\<close> if inertial sensing is active and then
  \<open>AddOdometry\<close> if odometry is active, each once, for the interval from \<open>TimeOld\<close> to
  \<open>TimeNow\<close>. If \<open>IncrementTime\<close>, whenever it returns true, has moved \<open>TimeNow\<close> forward, every
  pass after the first is such a pass.
\<close>

theorem predict_skipped_at_first_step:
  assumes "CreateGraphAndSolve fuel env cfg w = Some (Inr run)" and "Status run = 0"
    and "GetFirstTimestamp env cfg (io_effect env cfg (ReadDataFromFile (InputFile cfg)) w)
           = Some TimeFirst"
  shows "(\<exists>calls rest. Steps run = (TimeFirst - 1, TimeFirst, calls) # rest
                       \<and> filter is_motion_call calls = [])
       \<and> (\<forall>(TimeOld, TimeNow, calls) \<in> set (Steps run).
             filter is_motion_call calls =
               (if TimeFirst < TimeNow
                then (if IsActive (IMU cfg) then [AddIMU TimeOld TimeNow] else []) @
                     (if IsActive (Odom cfg)
                      then [AddOdometry (Type (Odom cfg)) Odom3 TimeOld TimeNow] else [])
                else []))
       \<and> ((\<forall>w a b l. fst (IncrementTime env cfg w a b l) \<longrightarrow>
                       b < snd (snd (IncrementTime env cfg w a b l))) \<longrightarrow>
            (\<forall>i. 0 < i \<and> i < length (Steps run) \<longrightarrow> TimeFirst < fst (snd (Steps run ! i))))"
proof -
  from completed_run [OF assms] obtain TimeLast st1 TimeEnd st2 where
    loop: "update_loop fuel env cfg TimeFirst TimeLast (TimeFirst - 1) TimeFirst st1
             = Some (Inr (Steps run, TimeEnd, st2))"
    by blast
  from update_loop_steps [OF loop] obtain rest where
    hd: "Steps run = (TimeFirst - 1, TimeFirst, pass_calls cfg TimeFirst (TimeFirst - 1) TimeFirst) # rest"
    and all: "\<forall>(a, b, calls) \<in> set (Steps run). calls = pass_calls cfg TimeFirst a b"
    by blast
  have a: "\<exists>calls rest. Steps run = (TimeFirst - 1, TimeFirst, calls) # rest
                       \<and> filter is_motion_call calls = []"
    using hd by (simp add: filter_motion_pass_calls)
  from all have b: "\<forall>(TimeOld, TimeNow, calls) \<in> set (Steps run).
             filter is_motion_call calls =
               (if TimeFirst < TimeNow
                then (if IsActive (IMU cfg) then [AddIMU TimeOld TimeNow] else []) @
                     (if IsActive (Odom cfg)
                      then [AddOdometry (Type (Odom cfg)) Odom3 TimeOld TimeNow] else [])
                else [])"
    using filter_motion_pass_calls by fastforce
  have c: "(\<forall>w a b l. fst (IncrementTime env cfg w a b l) \<longrightarrow>
                       b < snd (snd (IncrementTime env cfg w a b l))) \<longrightarrow>
            (\<forall>i. 0 < i \<and> i < length (Steps run) \<longrightarrow> TimeFirst < fst (snd (Steps run ! i)))"
    using update_loop_later [OF _ loop] by blast
  from a b c show ?thesis by blast
qed

theorem predict_skipped_at_first_step_witness:
  "CreateGraphAndSolve (Suc (Suc (Suc 0))) example_env all_motion_cfg () = Some (Inr motion_example_run)
   \<and> Status motion_example_run = 0
   \<and> map (\<lambda>(TimeOld, TimeNow, calls). (TimeNow, filter is_motion_call calls))
         (Steps motion_example_run)
       = [(30, []), (31, [AddIMU 30 31, AddOdometry (Type (Odom all_motion_cfg)) Odom3 30 31])]
   \<and> 30 < fst (snd (Steps motion_example_run ! 1))"
proof -
  have h: "Status motion_example_run = 0" by (simp add: motion_example_run_def)
  have inc: "\<forall>w a b l. fst (IncrementTime example_env all_motion_cfg w a b l) \<longrightarrow>
                       b < snd (snd (IncrementTime example_env all_motion_cfg w a b l))"
    by (simp add: example_env_def)
  have len: "0 < (1::nat) \<and> 1 < length (Steps motion_example_run)"
    by (simp add: motion_example_run_def)
  from predict_skipped_at_first_step [OF example_run_motion h example_first_timestamp] inc len
  have "30 < fst (snd (Steps motion_example_run ! 1))"
    by blast
  then show ?thesis
    using example_run_motion h
    by (simp add: motion_example_run_def all_motion_cfg_def sensor_on_def)
qed

subsection \<open>Missing timestamps\<close>

text \<open>
  C4. If no first or no last timestamp is found, \<open>CreateGraphAndSolve\<close> returns 1 having
  only read the input and printed an error: \<open>InitGraph\<close> is not run, the loop makes no pass,
  nothing is solved and the graph is empty. \<open>main\<close> then prints its own error line and
  returns 0, so the exit status of the process is zero.
\<close>

theorem missing_timestamp_exit_status:
  assumes "GetFirstTimestamp env cfg (io_effect env cfg (ReadDataFromFile (InputFile cfg)) w) = None
         \<or> GetLastTimestamp env cfg (io_effect env cfg (ReadDataFromFile (InputFile cfg)) w) = None"
  shows "\<exists>run msg. CreateGraphAndSolve fuel env cfg w = Some (Inr run)
           \<and> Status run = 1
           \<and> StartCalls run = [ReadDataFromFile (InputFile cfg), PRINT_ERROR msg]
           \<and> Steps run = [] \<and> FinalCalls run = []
           \<and> snd (FinalState run) = EmptyGraph
           \<and> main fuel env cfg w =
               Some (Inr (0, [PRINT_ERROR ''Something gone wrong while estimating GNSS position!''], run))"
  using assms
  by (auto simp: main_def CreateGraphAndSolve_def Let_def give_up_def split: option.splits)

theorem missing_timestamp_exit_status_witness:
  "GetFirstTimestamp no_data_env gnss_only_cfg
     (io_effect no_data_env gnss_only_cfg (ReadDataFromFile (InputFile gnss_only_cfg)) ()) = None
   \<and> (\<exists>run. main 5 no_data_env gnss_only_cfg () =
         Some (Inr (0, [PRINT_ERROR ''Something gone wrong while estimating GNSS position!''], run))
        \<and> Status run = 1 \<and> Steps run = [])"
proof -
  have h: "GetFirstTimestamp no_data_env gnss_only_cfg
     (io_effect no_data_env gnss_only_cfg (ReadDataFromFile (InputFile gnss_only_cfg)) ()) = None"
    by (simp add: no_data_env_def)
  from missing_timestamp_exit_status [OF disjI1 [OF h], of 5] h
  show ?thesis by blast
qed

end
